theory Spec2Isabelle
  imports Main "HOL-Library.Sublist"
begin

section \<open>The link extractor of mcpe_downloader.py\<close>

text \<open>
  The program fetches a page, scans it for links to an APK file and prints one of them.
  A Python \<open>str\<close> is modelled as a \<open>string\<close> whose characters are the code points
  below 256. Everything the program does to the outside (printing, fetching, sleeping,
  driving the browser) is recorded as a list of events; everything the outside answers
  is read from a \<open>world\<close>.
\<close>

subsection \<open>Exceptions, responses, messages and events\<close>

text \<open>
  \<open>RequestException\<close> stands for \<open>requests.exceptions.RequestException\<close> and its
  subclasses (\<open>HTTPError\<close> among them), \<open>OtherException\<close> for every other subclass of
  \<open>Exception\<close>. \<open>KeyboardInterrupt\<close> is not a subclass of \<open>Exception\<close>: an
  \<open>except Exception\<close> clause lets it through.
\<close>

datatype exc = RequestException | OtherException | KeyboardInterrupt

datatype 'a outcome = Returns 'a | Raises exc

record response =
  status_code :: nat
  resp_text :: string

text \<open>
  One constructor per line the program prints; the pictograph and the text of the
  exception that some lines carry are left out, the interpolated URL and number are kept.
\<close>

datatype message =
    Analyzing string
  | UnexpectedError
  | UsingRequestsMethod
  | FoundImmediately
  | TimerDetected nat
  | Refetching
  | FoundAfterWaiting
  | CouldNotFindDirectLink
  | NetworkError
  | RequestsMethodError
  | SeleniumNotFound
  | SeleniumTermuxNote
  | WebDriverInitialized
  | WebDriverInitFailed
  | ChromeDriverNote
  | SeleniumFallingBack
  | LoadingWithSelenium
  | WaitingUpTo nat
  | FoundWithSelenium
  | CouldNotExtractSelenium
  | SeleniumMethodFailed
  | Usage
  | UsageExample
  | SchemeError
  | Link string
  | NoDownloadLinkFound
  | InterruptedByUser
  | UnexpectedErrorOccurred

text \<open>
  \<open>Stdout m\<close> is \<open>print(m)\<close>, \<open>Stderr m\<close> is \<open>print(m, file=sys.stderr)\<close>,
  \<open>SessionGet url t\<close> is \<open>self.session.get(url, timeout=t)\<close>.
\<close>

datatype event =
    Stdout message
  | Stderr message
  | SessionGet string nat
  | TimeSleep nat
  | ImportSelenium
  | WebdriverChrome
  | DriverGet string
  | DriverPageSource
  | DriverQuit

datatype webdriver = Chrome

record extractor =
  use_selenium :: bool
  driver :: "webdriver option"

text \<open>
  The answers of the libraries and of the network. The parsing functions are those of
  BeautifulSoup and urllib: \<open>find_all_a_href html\<close> is the list of the \<open>href\<close> values of
  \<open>soup.find_all('a', href=True)\<close> in document order, \<open>get_text html\<close> is
  \<open>soup.get_text()\<close>, \<open>urljoin base href\<close> is \<open>urllib.parse.urljoin\<close>.
  \<open>list_of_set xs\<close> is \<open>list(set(xs))\<close>: the order in which a Python set of strings
  is iterated depends on the hashes of the strings, which change from one process to
  the next. \<open>session_get n\<close> is what the \<open>n\<close>-th call of \<open>session.get\<close> does (counted
  from 0). The parsing functions and \<open>print\<close> are taken to return; the calls that
  reach the network, the clock or the browser may raise, \<open>KeyboardInterrupt\<close> included.
\<close>

record world =
  find_all_a_href :: "string \<Rightarrow> string list"
  get_text :: "string \<Rightarrow> string"
  urljoin :: "string \<Rightarrow> string \<Rightarrow> string"
  list_of_set :: "string list \<Rightarrow> string list"
  session_get :: "nat \<Rightarrow> response outcome"
  time_sleep :: "unit outcome"
  import_selenium :: bool
  webdriver_Chrome :: "webdriver outcome"
  driver_get :: "unit outcome"
  page_source :: "string outcome"
  driver_quit :: "unit outcome"

text \<open>
  What every Python set guarantees about \<open>list(set(xs))\<close>: the same elements, each
  once. Nothing is guaranteed about their order.
\<close>

definition set_semantics :: "(string list \<Rightarrow> string list) \<Rightarrow> bool" where
  "set_semantics f = (\<forall>xs. set (f xs) = set xs \<and> distinct (f xs))"

subsection \<open>The pattern of the artifact URL\<close>

text \<open>
  The regular expression is
  \<^verbatim>\<open>https://mcpedl\.org/uploads_files/[^"'\s<>]*\.apk\<close>.
  \<open>\s\<close> on a \<open>str\<close> pattern is Unicode white space; below 256 these are the code
  points 9 to 13, 28 to 32, 133 and 160.
\<close>

definition isspace :: "char \<Rightarrow> bool" where
  "isspace c =
     (let n = (of_char c :: nat)
      in (9 \<le> n \<and> n \<le> 13) \<or> (28 \<le> n \<and> n \<le> 32) \<or> n = 133 \<or> n = 160)"

definition path_char :: "char \<Rightarrow> bool" where
  "path_char c = (c \<notin> {CHR 0x22, CHR 0x27, CHR ''<'', CHR ''>''} \<and> \<not> isspace c)"

definition uploads_prefix :: string where
  "uploads_prefix = ''https://mcpedl.org/uploads_files/''"

text \<open>
  A match that starts at the head of \<open>s\<close>: the fixed prefix, then the greedy class
  \<open>[^"'\s<>]*\<close> takes the longest run of path characters and gives characters back
  until \<open>\.apk\<close> matches, so the match ends at the last \<open>.apk\<close> inside the run.
\<close>

definition re_match :: "string \<Rightarrow> string option" where
  "re_match s =
     (if prefix uploads_prefix s then
        (case filter (suffix ''.apk'')
                (rev (prefixes (takeWhile path_char (drop (length uploads_prefix) s)))) of
           [] \<Rightarrow> None
         | p # _ \<Rightarrow> Some (uploads_prefix @ p))
      else None)"

text \<open>
  \<open>re.findall\<close>: the matches from left to right, none overlapping another. The first
  argument counts the characters of the last match that are still to be passed.
\<close>

fun re_findall_from :: "nat \<Rightarrow> string \<Rightarrow> string list" where
  "re_findall_from k [] = []"
| "re_findall_from k (c # cs) =
     (if 0 < k then re_findall_from (k - 1) cs
      else (case re_match (c # cs) of
              None \<Rightarrow> re_findall_from 0 cs
            | Some m \<Rightarrow> m # re_findall_from (length m - 1) cs))"

definition re_findall :: "string \<Rightarrow> string list" where
  "re_findall html_content = re_findall_from 0 html_content"

subsection \<open>_extract_direct_links_from_html\<close>

text \<open>
  The loop over the anchors: an \<open>href\<close> that ends in \<open>.apk\<close> is joined with the base
  URL and appended unless the list has it already.
\<close>

fun anchor_loop :: "world \<Rightarrow> string \<Rightarrow> string list \<Rightarrow> string list \<Rightarrow> string list" where
  "anchor_loop W base_url [] links = links"
| "anchor_loop W base_url (href # hrefs) links =
     (if suffix ''.apk'' href then
        (let full_url = urljoin W base_url href
         in if full_url \<in> set links then anchor_loop W base_url hrefs links
            else anchor_loop W base_url hrefs (links @ [full_url]))
      else anchor_loop W base_url hrefs links)"

text \<open>The list \<open>links\<close> as it stands before the last line of the function.\<close>

definition collected_links :: "world \<Rightarrow> string \<Rightarrow> string \<Rightarrow> string list" where
  "collected_links W html_content base_url =
     anchor_loop W base_url (find_all_a_href W html_content) (re_findall html_content)"

definition extract_direct_links_from_html :: "world \<Rightarrow> string \<Rightarrow> string \<Rightarrow> string list" where
  "extract_direct_links_from_html W html_content base_url =
     list_of_set W (collected_links W html_content base_url)"

subsection \<open>The plain-fetch path: _get_download_link_requests\<close>

text \<open>
  \<open>str.lower\<close> on the code points below 256: the letters A to Z and the capital
  letters from 192 to 222 (215, the multiplication sign, is not a letter) move up by 32.
\<close>

definition lower_char :: "char \<Rightarrow> char" where
  "lower_char c =
     (let n = (of_char c :: nat)
      in if (65 \<le> n \<and> n \<le> 90) \<or> (192 \<le> n \<and> n \<le> 222 \<and> n \<noteq> 215)
         then char_of (n + 32) else c)"

definition lower :: "string \<Rightarrow> string" where
  "lower s = map lower_char s"

definition timer_words :: "string list" where
  "timer_words = [''timer'', ''countdown'', ''please wait'', ''seconds'']"

text \<open>
  \<open>any(word in page_text_lower for word in [...])\<close>; \<open>in\<close> on strings is the
  substring test.
\<close>

definition timer_detected :: "world \<Rightarrow> string \<Rightarrow> bool" where
  "timer_detected W html_content =
     list_ex (\<lambda>word. sublist word (lower (get_text W html_content))) timer_words"

text \<open>
  \<open>response.raise_for_status()\<close> raises \<open>HTTPError\<close>, a \<open>RequestException\<close>, on a
  status from 400 to 599.
\<close>

definition raise_for_status :: "response \<Rightarrow> unit outcome" where
  "raise_for_status r =
     (if 400 \<le> status_code r \<and> status_code r < 600 then Raises RequestException
      else Returns ())"

text \<open>
  The two \<open>except\<close> clauses of the function, applied to an exception raised after the
  events \<open>tr\<close>.
\<close>

definition requests_except :: "exc \<Rightarrow> event list \<Rightarrow> string option outcome \<times> event list" where
  "requests_except e tr =
     (case e of
        RequestException \<Rightarrow> (Returns None, tr @ [Stdout NetworkError])
      | OtherException \<Rightarrow> (Returns None, tr @ [Stdout RequestsMethodError])
      | KeyboardInterrupt \<Rightarrow> (Raises KeyboardInterrupt, tr))"

definition get_download_link_requests ::
  "world \<Rightarrow> string \<Rightarrow> string option outcome \<times> event list" where
  "get_download_link_requests W url =
     (let tr1 = [Stdout UsingRequestsMethod, SessionGet url 15] in
      case session_get W 0 of
        Raises e \<Rightarrow> requests_except e tr1
      | Returns response \<Rightarrow>
         (case raise_for_status response of
            Raises e \<Rightarrow> requests_except e tr1
          | Returns _ \<Rightarrow>
             (case extract_direct_links_from_html W (resp_text response) url of
                link # _ \<Rightarrow> (Returns (Some link), tr1 @ [Stdout FoundImmediately])
              | [] \<Rightarrow>
                 if timer_detected W (resp_text response) then
                   (let tr2 = tr1 @ [Stdout (TimerDetected 12), TimeSleep 12] in
                    case time_sleep W of
                      Raises e \<Rightarrow> requests_except e tr2
                    | Returns _ \<Rightarrow>
                       (let tr3 = tr2 @ [Stdout Refetching, SessionGet url 15] in
                        case session_get W 1 of
                          Raises e \<Rightarrow> requests_except e tr3
                        | Returns response2 \<Rightarrow>
                           (case extract_direct_links_from_html W (resp_text response2) url of
                              link # _ \<Rightarrow>
                                (Returns (Some link), tr3 @ [Stdout FoundAfterWaiting])
                            | [] \<Rightarrow>
                                (Returns None, tr3 @ [Stdout CouldNotFindDirectLink]))))
                 else (Returns None, tr1 @ [Stdout CouldNotFindDirectLink]))))"

subsection \<open>The browser: setup_driver, close_driver, _get_download_link_selenium\<close>

definition setup_driver :: "world \<Rightarrow> extractor \<Rightarrow> unit outcome \<times> extractor \<times> event list" where
  "setup_driver W self =
     (if \<not> import_selenium W then
        (Returns (), self\<lparr>use_selenium := False\<rparr>,
         [ImportSelenium, Stdout SeleniumNotFound, Stdout SeleniumTermuxNote])
      else if driver self \<noteq> None then (Returns (), self, [ImportSelenium])
      else
        (case webdriver_Chrome W of
           Returns d \<Rightarrow>
             (Returns (), self\<lparr>driver := Some d\<rparr>,
              [ImportSelenium, WebdriverChrome, Stdout WebDriverInitialized])
         | Raises KeyboardInterrupt \<Rightarrow>
             (Raises KeyboardInterrupt, self, [ImportSelenium, WebdriverChrome])
         | Raises _ \<Rightarrow>
             (Returns (), self\<lparr>use_selenium := False\<rparr>,
              [ImportSelenium, WebdriverChrome, Stdout WebDriverInitFailed,
               Stdout ChromeDriverNote])))"

definition close_driver :: "world \<Rightarrow> extractor \<Rightarrow> unit outcome \<times> extractor \<times> event list" where
  "close_driver W self =
     (case driver self of
        None \<Rightarrow> (Returns (), self, [])
      | Some d \<Rightarrow>
         (case driver_quit W of
            Returns _ \<Rightarrow> (Returns (), self\<lparr>driver := None\<rparr>, [DriverQuit])
          | Raises e \<Rightarrow> (Raises e, self, [DriverQuit])))"

text \<open>The \<open>except Exception\<close> clause of the browser path.\<close>

definition selenium_except ::
  "exc \<Rightarrow> extractor \<Rightarrow> event list \<Rightarrow> string option outcome \<times> extractor \<times> event list" where
  "selenium_except e self tr =
     (case e of
        KeyboardInterrupt \<Rightarrow> (Raises KeyboardInterrupt, self, tr)
      | _ \<Rightarrow> (Returns None, self, tr @ [Stdout SeleniumMethodFailed]))"

definition get_download_link_selenium ::
  "world \<Rightarrow> extractor \<Rightarrow> string \<Rightarrow> string option outcome \<times> extractor \<times> event list" where
  "get_download_link_selenium W self url =
     (case setup_driver W self of
        (Raises e, self1, tr1) \<Rightarrow> selenium_except e self1 tr1
      | (Returns _, self1, tr1) \<Rightarrow>
         if driver self1 = None \<or> \<not> use_selenium self1 then
           (let tr2 = tr1 @ [Stdout SeleniumFallingBack] in
            case get_download_link_requests W url of
              (Raises e, tr) \<Rightarrow> selenium_except e self1 (tr2 @ tr)
            | (Returns r, tr) \<Rightarrow> (Returns r, self1, tr2 @ tr))
         else
           (let tr2 = tr1 @ [Stdout LoadingWithSelenium, DriverGet url] in
            case driver_get W of
              Raises e \<Rightarrow> selenium_except e self1 tr2
            | Returns _ \<Rightarrow>
               (let tr3 = tr2 @ [Stdout (WaitingUpTo 15), TimeSleep 15] in
                case time_sleep W of
                  Raises e \<Rightarrow> selenium_except e self1 tr3
                | Returns _ \<Rightarrow>
                   (let tr4 = tr3 @ [DriverPageSource] in
                    case page_source W of
                      Raises e \<Rightarrow> selenium_except e self1 tr4
                    | Returns src \<Rightarrow>
                       (case extract_direct_links_from_html W src url of
                          link # _ \<Rightarrow>
                            (Returns (Some link), self1, tr4 @ [Stdout FoundWithSelenium])
                        | [] \<Rightarrow>
                            (Returns None, self1, tr4 @ [Stdout CouldNotExtractSelenium]))))))"

subsection \<open>get_download_link and main\<close>

definition get_download_link ::
  "world \<Rightarrow> extractor \<Rightarrow> string \<Rightarrow> string option outcome \<times> extractor \<times> event list" where
  "get_download_link W self url =
     (let tr0 = [Stdout (Analyzing url)] in
      case (if use_selenium self then get_download_link_selenium W self url
            else (case get_download_link_requests W url of (r, tr) \<Rightarrow> (r, self, tr))) of
        (Raises KeyboardInterrupt, self1, tr) \<Rightarrow> (Raises KeyboardInterrupt, self1, tr0 @ tr)
      | (Raises _, self1, tr) \<Rightarrow> (Returns None, self1, tr0 @ tr @ [Stdout UnexpectedError])
      | (Returns r, self1, tr) \<Rightarrow> (Returns r, self1, tr0 @ tr))"

text \<open>
  How the process ends: \<open>Exit n\<close> is an exit with code \<open>n\<close> (\<open>sys.exit(1)\<close>, or 0 when
  \<open>main\<close> returns), \<open>Traceback e\<close> is an exception that nothing caught.
\<close>

datatype exit_status = Exit nat | Traceback exc

definition init :: "bool \<Rightarrow> extractor" where
  "init flag = \<lparr>use_selenium = flag, driver = None\<rparr>"

text \<open>
  The \<open>try\<close> block of \<open>main\<close> with its two \<open>except\<close> clauses, given what
  \<open>get_download_link\<close> did. \<open>if download_link\<close> is false on \<open>None\<close> and on the empty
  string.
\<close>

definition main_try :: "string option outcome \<Rightarrow> exit_status \<times> event list" where
  "main_try r =
     (case r of
        Returns None \<Rightarrow> (Exit 1, [Stderr NoDownloadLinkFound])
      | Returns (Some download_link) \<Rightarrow>
          if download_link \<noteq> [] then (Exit 0, [Stdout (Link download_link)])
          else (Exit 1, [Stderr NoDownloadLinkFound])
      | Raises KeyboardInterrupt \<Rightarrow> (Exit 1, [Stderr InterruptedByUser])
      | Raises _ \<Rightarrow> (Exit 1, [Stderr UnexpectedErrorOccurred]))"

text \<open>
  The \<open>try\<close> statement with its \<open>finally\<close> clause: \<open>close_driver\<close> runs last, and an
  exception it raises replaces the pending exit.
\<close>

definition main_finally ::
  "world \<Rightarrow> string option outcome \<times> extractor \<times> event list
     \<Rightarrow> exit_status \<times> extractor \<times> event list" where
  "main_finally W x =
     (case x of (r, self1, tr) \<Rightarrow>
        (case main_try r of (t, tr2) \<Rightarrow>
           (case close_driver W self1 of
              (Returns _, self2, tr3) \<Rightarrow> (t, self2, tr @ tr2 @ tr3)
            | (Raises e, self2, tr3) \<Rightarrow> (Traceback e, self2, tr @ tr2 @ tr3))))"

text \<open>\<open>argv\<close> is \<open>sys.argv\<close>: the name of the program, then its arguments.\<close>

definition main :: "world \<Rightarrow> string list \<Rightarrow> exit_status \<times> extractor option \<times> event list" where
  "main W argv =
     (if length argv < 2 then (Exit 1, None, [Stdout Usage, Stdout UsageExample])
      else
        (let url = argv ! 1 in
         if \<not> prefix ''http'' url then (Exit 1, None, [Stdout SchemeError])
         else
           (let use_selenium_flag = (2 < length argv \<and> argv ! 2 \<in> {''-s'', ''--selenium''});
                extractor = init use_selenium_flag
            in case main_finally W (get_download_link W extractor url) of
                 (t, self2, tr) \<Rightarrow> (t, Some self2, tr))))"

subsection \<open>Reading a list of events\<close>

fun stdout :: "event list \<Rightarrow> message list" where
  "stdout [] = []"
| "stdout (Stdout m # es) = m # stdout es"
| "stdout (e # es) = stdout es"

fun sleeps :: "event list \<Rightarrow> nat list" where
  "sleeps [] = []"
| "sleeps (TimeSleep n # es) = n # sleeps es"
| "sleeps (e # es) = sleeps es"

text \<open>Network activity: the URLs fetched by the session or loaded by the browser.\<close>

fun fetches :: "event list \<Rightarrow> string list" where
  "fetches [] = []"
| "fetches (SessionGet u t # es) = u # fetches es"
| "fetches (DriverGet u # es) = u # fetches es"
| "fetches (e # es) = fetches es"

subsection \<open>Example pages and worlds\<close>

text \<open>
  Pages of the site and what the libraries answer on them. \<open>page_direct\<close> links to an
  uploaded file, \<open>page_both\<close> has that link and a second anchor to a file elsewhere,
  \<open>page_wait\<close> is a countdown page, \<open>page_anchor\<close> has one relative anchor and
  \<open>page_plain\<close> has neither a link nor a countdown.
\<close>

definition example_url :: string where
  "example_url = ''https://mcpedl.org/getfile/5916''"

definition game_apk :: string where
  "game_apk = ''https://mcpedl.org/uploads_files/x/game.apk''"

definition app_apk :: string where
  "app_apk = ''https://mcpedl.org/files/app.apk''"

definition page_direct :: string where
  \<open>page_direct = ''<a href="https://mcpedl.org/uploads_files/x/game.apk">dl</a>''\<close>

definition page_both :: string where
  \<open>page_both =
     ''<a href="https://mcpedl.org/uploads_files/x/game.apk">dl</a><a href="/files/app.apk">mirror</a>''\<close>

definition page_wait :: string where
  "page_wait = ''Please wait 10 seconds...''"

definition page_anchor :: string where
  \<open>page_anchor = ''<a href="/files/app.apk">go</a>''\<close>

definition page_plain :: string where
  "page_plain = ''<p>Nothing here</p>''"

text \<open>The \<open>href\<close> values BeautifulSoup finds in the example pages.\<close>

definition example_hrefs :: "string \<Rightarrow> string list" where
  "example_hrefs html =
     (if html = page_direct then [game_apk]
      else if html = page_both then [game_apk, ''/files/app.apk'']
      else if html = page_anchor then [''/files/app.apk'']
      else [])"

text \<open>The visible text of the example pages.\<close>

definition example_text :: "string \<Rightarrow> string" where
  "example_text html =
     (if html = page_direct then ''dl''
      else if html = page_both then ''dlmirror''
      else if html = page_anchor then ''go''
      else if html = page_plain then ''Nothing here''
      else html)"

text \<open>
  \<open>urljoin\<close> against a base URL on \<open>https://mcpedl.org\<close>: a path that starts with a
  slash replaces the path of the base, an absolute URL is kept.
\<close>

definition example_urljoin :: "string \<Rightarrow> string \<Rightarrow> string" where
  "example_urljoin base href =
     (if prefix ''/'' href then ''https://mcpedl.org'' @ href else href)"

text \<open>
  A world in which the browser is available and every call returns; the responses of
  \<open>session.get\<close> are read from a list, and a call beyond the list times out.
\<close>

definition example_world :: "response list \<Rightarrow> world" where
  "example_world rs =
     \<lparr>find_all_a_href = example_hrefs,
      get_text = example_text,
      urljoin = example_urljoin,
      list_of_set = remdups,
      session_get = (\<lambda>n. if n < length rs then Returns (rs ! n) else Raises RequestException),
      time_sleep = Returns (),
      import_selenium = True,
      webdriver_Chrome = Returns Chrome,
      driver_get = Returns (),
      page_source = Returns page_wait,
      driver_quit = Returns ()\<rparr>"

definition ok :: "string \<Rightarrow> response" where
  "ok html = \<lparr>status_code = 200, resp_text = html\<rparr>"

definition not_found :: "string \<Rightarrow> response" where
  "not_found html = \<lparr>status_code = 404, resp_text = html\<rparr>"

section \<open>Properties\<close>

subsection \<open>The candidate scan\<close>

lemma set_anchor_loop:
  "set (anchor_loop W b hs links) = set links \<union> urljoin W b ` {h \<in> set hs. suffix ''.apk'' h}"
  by (induction hs arbitrary: links) (auto simp: Let_def)

lemma set_extract:
  assumes "set_semantics (list_of_set W)"
  shows "set (extract_direct_links_from_html W html b) =
         set (re_findall html) \<union> urljoin W b ` {h \<in> set (find_all_a_href W html). suffix ''.apk'' h}"
  using assms by (simp add: extract_direct_links_from_html_def collected_links_def set_semantics_def set_anchor_loop)

lemma distinct_extract:
  assumes "set_semantics (list_of_set W)"
  shows "distinct (extract_direct_links_from_html W html b)"
  using assms by (simp add: extract_direct_links_from_html_def set_semantics_def)

lemma set_semantics_remdups: "set_semantics remdups"
  by (simp add: set_semantics_def)

lemma set_semantics_rev_remdups: "set_semantics (rev \<circ> remdups)"
  by (simp add: set_semantics_def)

text \<open>The list built by the function has the pattern matches first.\<close>

lemma anchor_loop_appends: "prefix links (anchor_loop W b hs links)"
proof (induction hs arbitrary: links)
  case Nil
  show ?case by simp
next
  case (Cons h hs)
  have "prefix links (links @ [urljoin W b h])" by simp
  with Cons [of "links @ [urljoin W b h]"] have "prefix links (anchor_loop W b hs (links @ [urljoin W b h]))"
    using prefix_order.trans by blast
  with Cons [of links] show ?case by (simp add: Let_def)
qed

lemma collected_links_pattern_first:
  "prefix (re_findall html_content) (collected_links W html_content base_url)"
  by (simp add: collected_links_def anchor_loop_appends)

text \<open>
  Claim C4. The candidate scan is a function of the markup and the base URL: two runs
  on the same markup and base URL yield the same set of links, whatever the order in
  which each run iterates its set and whatever else differs between the runs (the
  network, the browser, the state of the extractor, which the scan does not read).
\<close>

theorem candidate_scan_deterministic:
  assumes "set_semantics (list_of_set W)" and "set_semantics (list_of_set W')"
    and "find_all_a_href W' = find_all_a_href W" and "urljoin W' = urljoin W"
  shows "set (extract_direct_links_from_html W html_content base_url) =
         set (extract_direct_links_from_html W' html_content base_url)"
  using assms by (simp add: set_extract)

theorem candidate_scan_deterministic_witness:
  "set (extract_direct_links_from_html (example_world []) page_both example_url) =
   set (extract_direct_links_from_html
          ((example_world [ok page_direct])\<lparr>list_of_set := rev \<circ> remdups, import_selenium := False\<rparr>)
          page_both example_url)"
proof -
  have a: "set_semantics (list_of_set (example_world []))"
    by (simp add: example_world_def set_semantics_remdups)
  have b: "set_semantics (list_of_set
      ((example_world [ok page_direct])\<lparr>list_of_set := rev \<circ> remdups, import_selenium := False\<rparr>))"
    by (simp add: set_semantics_rev_remdups)
  show ?thesis
    by (rule candidate_scan_deterministic [OF a b]) (simp_all add: example_world_def)
qed

subsection \<open>The plain-fetch path\<close>

lemma requests_raises_only_interrupt:
  "fst (get_download_link_requests W url) = Raises e \<Longrightarrow> e = KeyboardInterrupt"
  by (auto simp: get_download_link_requests_def requests_except_def Let_def
      split: outcome.splits exc.splits list.splits if_splits)

lemma requests_after_wait:
  assumes "session_get W 0 = Returns r1" and "raise_for_status r1 = Returns ()"
    and "extract_direct_links_from_html W (resp_text r1) url = []"
    and "timer_detected W (resp_text r1)" and "time_sleep W = Returns ()"
  shows "get_download_link_requests W url =
           (case session_get W 1 of
              Raises e \<Rightarrow>
                requests_except e
                  [Stdout UsingRequestsMethod, SessionGet url 15, Stdout (TimerDetected 12),
                   TimeSleep 12, Stdout Refetching, SessionGet url 15]
            | Returns r2 \<Rightarrow>
                (case extract_direct_links_from_html W (resp_text r2) url of
                   [] \<Rightarrow>
                     (Returns None,
                      [Stdout UsingRequestsMethod, SessionGet url 15, Stdout (TimerDetected 12),
                       TimeSleep 12, Stdout Refetching, SessionGet url 15,
                       Stdout CouldNotFindDirectLink])
                 | link # _ \<Rightarrow>
                     (Returns (Some link),
                      [Stdout UsingRequestsMethod, SessionGet url 15, Stdout (TimerDetected 12),
                       TimeSleep 12, Stdout Refetching, SessionGet url 15,
                       Stdout FoundAfterWaiting])))"
  using assms
  by (simp add: get_download_link_requests_def split: outcome.splits list.splits)

text \<open>
  Claim C6. On the plain-fetch path, when the first fetch returns a body in which the
  scan finds no candidate and whose lower-cased text has none of the countdown words,
  the extractor returns not-found after that one fetch: no sleep, no second fetch.
\<close>

theorem no_timer_no_candidate_single_fetch:
  assumes "session_get W 0 = Returns response"
    and "extract_direct_links_from_html W (resp_text response) url = []"
    and "\<not> timer_detected W (resp_text response)"
  shows "fst (get_download_link_requests W url) = Returns None \<and>
         fetches (snd (get_download_link_requests W url)) = [url] \<and>
         sleeps (snd (get_download_link_requests W url)) = []"
  using assms
  by (simp add: get_download_link_requests_def raise_for_status_def requests_except_def)

theorem no_timer_no_candidate_single_fetch_witness:
  "fst (get_download_link_requests (example_world [ok page_plain]) example_url) = Returns None \<and>
   fetches (snd (get_download_link_requests (example_world [ok page_plain]) example_url)) = [example_url] \<and>
   sleeps (snd (get_download_link_requests (example_world [ok page_plain]) example_url)) = []"
proof -
  have a: "session_get (example_world [ok page_plain]) 0 = Returns (ok page_plain)"
    by (simp add: example_world_def)
  have b: "extract_direct_links_from_html (example_world [ok page_plain])
             (resp_text (ok page_plain)) example_url = []"
    by code_simp
  have c: "\<not> timer_detected (example_world [ok page_plain]) (resp_text (ok page_plain))"
    by code_simp
  show ?thesis
    by (rule no_timer_no_candidate_single_fetch [OF a b c])
qed

text \<open>
  Claim C5, as stated, fails when the first response carries an error status: on a
  response 503 whose body is a countdown page with no candidate, \<open>raise_for_status\<close>
  ends the operation as a network error after the one fetch, with no sleep and no
  second fetch, although the second fetch would have found a link.
\<close>

theorem countdown_error_status_counterexample:
  "session_get (example_world [\<lparr>status_code = 503, resp_text = page_wait\<rparr>, ok page_anchor]) 0 =
     Returns \<lparr>status_code = 503, resp_text = page_wait\<rparr> \<and>
   extract_direct_links_from_html
     (example_world [\<lparr>status_code = 503, resp_text = page_wait\<rparr>, ok page_anchor])
     page_wait example_url = [] \<and>
   timer_detected (example_world [\<lparr>status_code = 503, resp_text = page_wait\<rparr>, ok page_anchor])
     page_wait \<and>
   time_sleep (example_world [\<lparr>status_code = 503, resp_text = page_wait\<rparr>, ok page_anchor]) =
     Returns () \<and>
   get_download_link_requests
     (example_world [\<lparr>status_code = 503, resp_text = page_wait\<rparr>, ok page_anchor]) example_url =
     (Returns None,
      [Stdout UsingRequestsMethod, SessionGet example_url 15, Stdout NetworkError]) \<and>
   sleeps (snd (get_download_link_requests
     (example_world [\<lparr>status_code = 503, resp_text = page_wait\<rparr>, ok page_anchor])
     example_url)) = [] \<and>
   fetches (snd (get_download_link_requests
     (example_world [\<lparr>status_code = 503, resp_text = page_wait\<rparr>, ok page_anchor])
     example_url)) = [example_url]"
  by code_simp

text \<open>
  Claim C5, amended. On the plain-fetch path, when the first fetch returns a response
  whose status is not an error status (not from 400 to 599), its body has no candidate
  and its lower-cased text has a countdown word, and the wait is not interrupted, the
  extractor sleeps once, for 12 time-units, fetches the same URL once more and returns
  the first candidate of the scan of the second body, or not-found when that scan is
  empty (or when the second fetch fails). A link it returns is a pattern match of the
  second body or an anchor of it that ends in \<open>.apk\<close>, joined with the URL of the page.
\<close>

theorem countdown_one_wait_one_refetch:
  assumes "session_get W 0 = Returns r1" and "raise_for_status r1 = Returns ()"
    and "extract_direct_links_from_html W (resp_text r1) url = []"
    and "timer_detected W (resp_text r1)" and "time_sleep W = Returns ()"
  shows "sleeps (snd (get_download_link_requests W url)) = [12] \<and>
         fetches (snd (get_download_link_requests W url)) = [url, url] \<and>
         fst (get_download_link_requests W url) =
           (case session_get W 1 of
              Returns r2 \<Rightarrow>
                (case extract_direct_links_from_html W (resp_text r2) url of
                   [] \<Rightarrow> Returns None
                 | link # _ \<Rightarrow> Returns (Some link))
            | Raises KeyboardInterrupt \<Rightarrow> Raises KeyboardInterrupt
            | Raises _ \<Rightarrow> Returns None) \<and>
         (set_semantics (list_of_set W) \<and>
          fst (get_download_link_requests W url) = Returns (Some found) \<longrightarrow>
            (\<exists>r2. session_get W 1 = Returns r2 \<and>
               (found \<in> set (re_findall (resp_text r2)) \<or>
                (\<exists>href \<in> set (find_all_a_href W (resp_text r2)).
                   suffix ''.apk'' href \<and> found = urljoin W url href))))"
proof -
  have main: "sleeps (snd (get_download_link_requests W url)) = [12] \<and>
         fetches (snd (get_download_link_requests W url)) = [url, url] \<and>
         fst (get_download_link_requests W url) =
           (case session_get W 1 of
              Returns r2 \<Rightarrow>
                (case extract_direct_links_from_html W (resp_text r2) url of
                   [] \<Rightarrow> Returns None
                 | link # _ \<Rightarrow> Returns (Some link))
            | Raises KeyboardInterrupt \<Rightarrow> Raises KeyboardInterrupt
            | Raises _ \<Rightarrow> Returns None)"
    unfolding requests_after_wait [OF assms]
    by (simp add: requests_except_def split: outcome.splits list.splits exc.splits)
  have "\<exists>r2. session_get W 1 = Returns r2 \<and>
               (found \<in> set (re_findall (resp_text r2)) \<or>
                (\<exists>href \<in> set (find_all_a_href W (resp_text r2)).
                   suffix ''.apk'' href \<and> found = urljoin W url href))"
    if s: "set_semantics (list_of_set W)"
      and f: "fst (get_download_link_requests W url) = Returns (Some found)"
  proof (cases "session_get W 1")
    case (Raises e)
    with main f show ?thesis by (cases e) simp_all
  next
    case (Returns r2)
    with main f have "found \<in> set (extract_direct_links_from_html W (resp_text r2) url)"
      by (auto split: list.splits)
    then have "found \<in> set (re_findall (resp_text r2)) \<union>
        urljoin W url ` {h \<in> set (find_all_a_href W (resp_text r2)). suffix ''.apk'' h}"
      by (simp only: set_extract [OF s])
    with Returns show ?thesis by auto
  qed
  with main show ?thesis by blast
qed

theorem countdown_one_wait_one_refetch_witness:
  "sleeps (snd (get_download_link_requests (example_world [ok page_wait, ok page_anchor]) example_url)) = [12] \<and>
   fetches (snd (get_download_link_requests (example_world [ok page_wait, ok page_anchor]) example_url)) =
     [example_url, example_url] \<and>
   fst (get_download_link_requests (example_world [ok page_wait, ok page_anchor]) example_url) =
     Returns (Some app_apk)"
proof -
  let ?W = "example_world [ok page_wait, ok page_anchor]"
  have a: "session_get ?W 0 = Returns (ok page_wait)"
    by (simp add: example_world_def)
  have b: "raise_for_status (ok page_wait) = Returns ()"
    by (simp add: raise_for_status_def ok_def)
  have c: "extract_direct_links_from_html ?W (resp_text (ok page_wait)) example_url = []"
    by code_simp
  have d: "timer_detected ?W (resp_text (ok page_wait))"
    by code_simp
  have e: "time_sleep ?W = Returns ()"
    by (simp add: example_world_def)
  have f: "session_get ?W 1 = Returns (ok page_anchor)"
    by (simp add: example_world_def)
  have g: "extract_direct_links_from_html ?W (resp_text (ok page_anchor)) example_url = [app_apk]"
    by code_simp
  show ?thesis
    using countdown_one_wait_one_refetch [OF a b c d e] f g by simp
qed

text \<open>
  Claim C10. On the plain-fetch path the first response is checked for its status: a
  status from 400 to 599 ends the operation as a network error. The response of the
  re-fetch is not checked: whatever its status, its body is scanned.
\<close>

theorem status_checked_on_first_fetch_only:
  "(session_get W 0 = Returns r1 \<and> 400 \<le> status_code r1 \<and> status_code r1 < 600 \<longrightarrow>
      get_download_link_requests W url =
        (Returns None, [Stdout UsingRequestsMethod, SessionGet url 15, Stdout NetworkError])) \<and>
   (session_get W 0 = Returns r1 \<and> raise_for_status r1 = Returns () \<and>
    extract_direct_links_from_html W (resp_text r1) url = [] \<and>
    timer_detected W (resp_text r1) \<and> time_sleep W = Returns () \<and>
    session_get W 1 = Returns \<lparr>status_code = n, resp_text = body\<rparr> \<longrightarrow>
      fst (get_download_link_requests W url) =
        (case extract_direct_links_from_html W body url of
           [] \<Rightarrow> Returns None
         | link # _ \<Rightarrow> Returns (Some link)))"
proof (intro conjI impI)
  assume "session_get W 0 = Returns r1 \<and> 400 \<le> status_code r1 \<and> status_code r1 < 600"
  then show "get_download_link_requests W url =
        (Returns None, [Stdout UsingRequestsMethod, SessionGet url 15, Stdout NetworkError])"
    by (simp add: get_download_link_requests_def raise_for_status_def requests_except_def)
next
  assume h: "session_get W 0 = Returns r1 \<and> raise_for_status r1 = Returns () \<and>
    extract_direct_links_from_html W (resp_text r1) url = [] \<and>
    timer_detected W (resp_text r1) \<and> time_sleep W = Returns () \<and>
    session_get W 1 = Returns \<lparr>status_code = n, resp_text = body\<rparr>"
  then have a: "session_get W 0 = Returns r1" and b: "raise_for_status r1 = Returns ()"
    and c: "extract_direct_links_from_html W (resp_text r1) url = []"
    and d: "timer_detected W (resp_text r1)" and e: "time_sleep W = Returns ()"
    by simp_all
  note requests_after_wait [OF a b c d e]
  with h show "fst (get_download_link_requests W url) =
        (case extract_direct_links_from_html W body url of
           [] \<Rightarrow> Returns None
         | link # _ \<Rightarrow> Returns (Some link))"
    by (simp split: list.splits)
qed

theorem status_checked_on_first_fetch_only_witness:
  "get_download_link_requests (example_world [not_found page_wait]) example_url =
     (Returns None, [Stdout UsingRequestsMethod, SessionGet example_url 15, Stdout NetworkError]) \<and>
   fst (get_download_link_requests (example_world [ok page_wait, not_found page_anchor]) example_url) =
     Returns (Some app_apk)"
proof -
  let ?V = "example_world [not_found page_wait]"
  let ?W = "example_world [ok page_wait, not_found page_anchor]"
  have v: "session_get ?V 0 = Returns (not_found page_wait) \<and>
           400 \<le> status_code (not_found page_wait) \<and> status_code (not_found page_wait) < 600"
    by (simp add: example_world_def not_found_def)
  have a: "session_get ?W 0 = Returns (ok page_wait)"
    by (simp add: example_world_def)
  have b: "raise_for_status (ok page_wait) = Returns ()"
    by (simp add: raise_for_status_def ok_def)
  have c: "extract_direct_links_from_html ?W (resp_text (ok page_wait)) example_url = []"
    by code_simp
  have d: "timer_detected ?W (resp_text (ok page_wait))"
    by code_simp
  have e: "time_sleep ?W = Returns ()"
    by (simp add: example_world_def)
  have f: "session_get ?W 1 = Returns \<lparr>status_code = 404, resp_text = page_anchor\<rparr>"
    by (simp add: example_world_def not_found_def)
  have g: "extract_direct_links_from_html ?W page_anchor example_url = [app_apk]"
    by code_simp
  have first: "get_download_link_requests ?V example_url =
     (Returns None, [Stdout UsingRequestsMethod, SessionGet example_url 15, Stdout NetworkError])"
    using status_checked_on_first_fetch_only [of ?V "not_found page_wait" example_url] v by blast
  have second: "fst (get_download_link_requests ?W example_url) = Returns (Some app_apk)"
    using status_checked_on_first_fetch_only
      [of ?W "ok page_wait" example_url 404 page_anchor] a b c d e f g
    by simp
  show ?thesis using first second by blast
qed

subsection \<open>The command line\<close>

text \<open>
  Claim C9. Without a URL argument, or with one that does not start with \<open>http\<close>, the
  program prints the usage lines or the scheme error, exits with code 1 and performs no
  network activity.
\<close>

theorem usage_error_exits_without_network:
  assumes "length argv < 2 \<or> \<not> prefix ''http'' (argv ! 1)"
  shows "main W argv =
           (Exit 1, None,
            if length argv < 2 then [Stdout Usage, Stdout UsageExample] else [Stdout SchemeError]) \<and>
         fetches (snd (snd (main W argv))) = []"
  using assms by (auto simp: main_def)

theorem usage_error_exits_without_network_witness:
  "main (example_world []) [''mcpe_downloader.py'', ''ftp://mcpedl.org/getfile/5916''] =
     (Exit 1, None, [Stdout SchemeError]) \<and>
   fetches (snd (snd (main (example_world [])
     [''mcpe_downloader.py'', ''ftp://mcpedl.org/getfile/5916'']))) = []"
proof -
  have a: "length [''mcpe_downloader.py'', ''ftp://mcpedl.org/getfile/5916''] < 2 \<or>
           \<not> prefix ''http'' ([''mcpe_downloader.py'', ''ftp://mcpedl.org/getfile/5916''] ! 1)"
    by simp
  show ?thesis
    using usage_error_exits_without_network [OF a, of "example_world []"] by simp
qed

subsection \<open>The browser path\<close>

lemma selenium_fallback:
  assumes "setup_driver W self = (Returns (), self1, tr1)"
    and "driver self1 = None \<or> \<not> use_selenium self1"
  shows "get_download_link_selenium W self url =
           (fst (get_download_link_requests W url), self1,
            tr1 @ [Stdout SeleniumFallingBack] @ snd (get_download_link_requests W url))"
proof (cases "get_download_link_requests W url")
  case (Pair r tr)
  show ?thesis
  proof (cases r)
    case (Returns v)
    with Pair assms show ?thesis
      by (simp add: get_download_link_selenium_def)
  next
    case (Raises e)
    with Pair requests_raises_only_interrupt [of W url e] have "e = KeyboardInterrupt"
      by simp
    with Raises Pair assms show ?thesis
      by (simp add: get_download_link_selenium_def selenium_except_def)
  qed
qed

text \<open>
  Claim C7. When the browser path is requested and the browser cannot be acquired (the
  Selenium library is missing, or \<open>webdriver.Chrome\<close> raises an exception), the
  extractor switches the browser path off, prints a diagnostic and runs the plain-fetch
  extraction on the same URL: the outcome is that of the plain-fetch path.
\<close>

theorem browser_unavailable_falls_back:
  assumes "use_selenium self"
    and "\<not> import_selenium W \<or>
         (driver self = None \<and> webdriver_Chrome W = Raises e \<and> e \<noteq> KeyboardInterrupt)"
  shows "get_download_link W self url =
           (fst (get_download_link_requests W url), self\<lparr>use_selenium := False\<rparr>,
            [Stdout (Analyzing url)] @ snd (snd (setup_driver W self)) @
            [Stdout SeleniumFallingBack] @ snd (get_download_link_requests W url)) \<and>
         fetches (snd (snd (setup_driver W self))) = [] \<and>
         (Stdout SeleniumNotFound \<in> set (snd (snd (setup_driver W self))) \<or>
          Stdout WebDriverInitFailed \<in> set (snd (snd (setup_driver W self))))"
proof -
  define tr1 where "tr1 = snd (snd (setup_driver W self))"
  have s: "setup_driver W self = (Returns (), self\<lparr>use_selenium := False\<rparr>, tr1)"
    unfolding tr1_def using assms(2) by (cases e) (auto simp: setup_driver_def)
  have d: "fetches tr1 = []"
    unfolding tr1_def using assms(2) by (cases e) (auto simp: setup_driver_def)
  have m: "Stdout SeleniumNotFound \<in> set tr1 \<or> Stdout WebDriverInitFailed \<in> set tr1"
    unfolding tr1_def using assms(2) by (cases e) (auto simp: setup_driver_def)
  have f: "get_download_link_selenium W self url =
           (fst (get_download_link_requests W url), self\<lparr>use_selenium := False\<rparr>,
            tr1 @ [Stdout SeleniumFallingBack] @ snd (get_download_link_requests W url))"
    by (rule selenium_fallback [OF s]) simp
  have "get_download_link W self url =
           (fst (get_download_link_requests W url), self\<lparr>use_selenium := False\<rparr>,
            [Stdout (Analyzing url)] @ tr1 @
            [Stdout SeleniumFallingBack] @ snd (get_download_link_requests W url))"
  proof (cases "fst (get_download_link_requests W url)")
    case (Returns v)
    with assms(1) f show ?thesis by (simp add: get_download_link_def)
  next
    case (Raises x)
    with requests_raises_only_interrupt [of W url x] have "x = KeyboardInterrupt" by simp
    with Raises assms(1) f show ?thesis by (simp add: get_download_link_def)
  qed
  with s d m show ?thesis by (simp add: tr1_def)
qed

theorem browser_unavailable_falls_back_witness:
  "get_download_link ((example_world [ok page_direct])\<lparr>import_selenium := False\<rparr>) (init True) example_url =
     (Returns (Some game_apk), \<lparr>use_selenium = False, driver = None\<rparr>,
      [Stdout (Analyzing example_url), ImportSelenium, Stdout SeleniumNotFound,
       Stdout SeleniumTermuxNote, Stdout SeleniumFallingBack, Stdout UsingRequestsMethod,
       SessionGet example_url 15, Stdout FoundImmediately])"
proof -
  let ?W = "(example_world [ok page_direct])\<lparr>import_selenium := False\<rparr>"
  have a: "use_selenium (init True)"
    by (simp add: init_def)
  have b: "\<not> import_selenium ?W \<or>
      (driver (init True) = None \<and> webdriver_Chrome ?W = Raises OtherException \<and>
       OtherException \<noteq> KeyboardInterrupt)"
    by simp
  have c: "get_download_link_requests ?W example_url =
      (Returns (Some game_apk),
       [Stdout UsingRequestsMethod, SessionGet example_url 15, Stdout FoundImmediately])"
    by code_simp
  have d: "setup_driver ?W (init True) =
      (Returns (), \<lparr>use_selenium = False, driver = None\<rparr>,
       [ImportSelenium, Stdout SeleniumNotFound, Stdout SeleniumTermuxNote])"
    by (simp add: setup_driver_def init_def)
  show ?thesis
    using browser_unavailable_falls_back [OF a b, of example_url] c d
    by (simp add: init_def)
qed

text \<open>
  Claim C3, as stated, fails on the browser path: on a page with no candidate and a
  countdown word, the browser path has slept 15 time-units before its only scan and
  then returns not-found; the URL is loaded once and never fetched again.
\<close>

theorem browser_path_refetch_counterexample:
  "extract_direct_links_from_html (example_world []) page_wait example_url = [] \<and>
   timer_detected (example_world []) page_wait \<and>
   get_download_link_selenium (example_world []) (init True) example_url =
     (Returns None, \<lparr>use_selenium = True, driver = Some Chrome\<rparr>,
      [ImportSelenium, WebdriverChrome, Stdout WebDriverInitialized,
       Stdout LoadingWithSelenium, DriverGet example_url, Stdout (WaitingUpTo 15),
       TimeSleep 15, DriverPageSource, Stdout CouldNotExtractSelenium]) \<and>
   fetches (snd (snd (get_download_link_selenium (example_world []) (init True) example_url))) =
     [example_url]"
  by code_simp

text \<open>
  Claim C3, amended. On the browser path, once the browser is acquired and the page is
  loaded, the extractor always sleeps 15 time-units, whatever the page says, then reads
  the rendered markup and scans it once: it returns the first candidate of that scan or
  not-found, with no look at the countdown words, no second load and no second scan.
\<close>

theorem browser_path_waits_then_scans_once:
  assumes "use_selenium self" and "import_selenium W"
    and "driver self = Some d \<or> webdriver_Chrome W = Returns d"
    and "driver_get W = Returns ()" and "time_sleep W = Returns ()"
    and "page_source W = Returns src"
  shows "fst (get_download_link_selenium W self url) =
           (case extract_direct_links_from_html W src url of
              [] \<Rightarrow> Returns None
            | link # _ \<Rightarrow> Returns (Some link)) \<and>
         fetches (snd (snd (get_download_link_selenium W self url))) = [url] \<and>
         sleeps (snd (snd (get_download_link_selenium W self url))) = [15] \<and>
         (\<exists>pre m. snd (snd (get_download_link_selenium W self url)) =
            pre @ [DriverGet url, Stdout (WaitingUpTo 15), TimeSleep 15, DriverPageSource,
                   Stdout m])"
proof (cases "driver self")
  case None
  with assms show ?thesis
    by (simp add: get_download_link_selenium_def setup_driver_def split: list.splits)
next
  case (Some c)
  with assms show ?thesis
    by (simp add: get_download_link_selenium_def setup_driver_def split: list.splits)
qed

theorem browser_path_waits_then_scans_once_witness:
  "fst (get_download_link_selenium ((example_world [])\<lparr>page_source := Returns page_anchor\<rparr>)
          (init True) example_url) = Returns (Some app_apk) \<and>
   fetches (snd (snd (get_download_link_selenium
          ((example_world [])\<lparr>page_source := Returns page_anchor\<rparr>) (init True) example_url))) =
     [example_url] \<and>
   sleeps (snd (snd (get_download_link_selenium
          ((example_world [])\<lparr>page_source := Returns page_anchor\<rparr>) (init True) example_url))) =
     [15]"
proof -
  let ?W = "(example_world [])\<lparr>page_source := Returns page_anchor\<rparr>"
  have a: "use_selenium (init True)"
    by (simp add: init_def)
  have b: "import_selenium ?W"
    by (simp add: example_world_def)
  have c: "driver (init True) = Some Chrome \<or> webdriver_Chrome ?W = Returns Chrome"
    by (simp add: example_world_def)
  have d: "driver_get ?W = Returns ()"
    by (simp add: example_world_def)
  have e: "time_sleep ?W = Returns ()"
    by (simp add: example_world_def)
  have f: "page_source ?W = Returns page_anchor"
    by simp
  have g: "extract_direct_links_from_html ?W page_anchor example_url = [app_apk]"
    by code_simp
  show ?thesis
    using browser_path_waits_then_scans_once [OF a b c d e f, of example_url] g by simp
qed

subsection \<open>Releasing the browser\<close>

lemma requests_never_initializes:
  "Stdout WebDriverInitialized \<notin> set (snd (get_download_link_requests W url))"
  by (auto simp: get_download_link_requests_def requests_except_def Let_def
      split: outcome.splits exc.splits list.splits)

lemma selenium_except_keeps:
  "selenium_except e self tr = (r, self1, tr') \<Longrightarrow>
   self1 = self \<and> (Stdout WebDriverInitialized \<in> set tr') = (Stdout WebDriverInitialized \<in> set tr)"
  by (auto simp: selenium_except_def split: exc.splits)

lemma setup_driver_initialized:
  assumes "driver self = None" and "setup_driver W self = (c, self1, tr1)"
  shows "(driver self1 \<noteq> None) = (Stdout WebDriverInitialized \<in> set tr1)"
  using assms by (auto simp: setup_driver_def split: if_splits outcome.splits exc.splits)

lemma selenium_initialized:
  assumes "driver self = None" and "get_download_link_selenium W self url = (r, self1, tr)"
  shows "(driver self1 \<noteq> None) = (Stdout WebDriverInitialized \<in> set tr)"
proof -
  obtain c s1 t1 where su: "setup_driver W self = (c, s1, t1)"
    by (cases "setup_driver W self") auto
  note i = setup_driver_initialized [OF assms(1) su]
  obtain q t2 where rq: "get_download_link_requests W url = (q, t2)"
    by (cases "get_download_link_requests W url") auto
  have n: "Stdout WebDriverInitialized \<notin> set t2"
    using requests_never_initializes [of W url] rq by simp
  show ?thesis
    using assms(2) su i rq n
    by (auto simp: get_download_link_selenium_def Let_def
        dest!: selenium_except_keeps
        split: outcome.splits list.splits if_splits)
qed

lemma get_download_link_initialized:
  assumes "driver self = None" and "get_download_link W self url = (r, self1, tr)"
  shows "(driver self1 \<noteq> None) = (Stdout WebDriverInitialized \<in> set tr)"
proof (cases "use_selenium self")
  case True
  obtain q s2 t2 where g: "get_download_link_selenium W self url = (q, s2, t2)"
    by (cases "get_download_link_selenium W self url") auto
  note selenium_initialized [OF assms(1) g]
  with True g assms(2) show ?thesis
    by (auto simp: get_download_link_def Let_def split: outcome.splits exc.splits)
next
  case False
  obtain q t2 where rq: "get_download_link_requests W url = (q, t2)"
    by (cases "get_download_link_requests W url") auto
  have n: "Stdout WebDriverInitialized \<notin> set t2"
    using requests_never_initializes [of W url] rq by simp
  with False rq assms show ?thesis
    by (auto simp: get_download_link_def Let_def split: outcome.splits exc.splits)
qed

lemma main_finally_events:
  "snd (snd (main_finally W (r, self1, tr))) =
     tr @ snd (main_try r) @ (if driver self1 = None then [] else [DriverQuit])"
  by (auto simp: main_finally_def close_driver_def split: prod.splits outcome.splits option.splits)

lemma main_try_never_initializes:
  "Stdout WebDriverInitialized \<notin> set (snd (main_try r))"
  by (auto simp: main_try_def split: outcome.splits option.splits exc.splits)

text \<open>
  Claim C8. Whatever \<open>get_download_link\<close> did (it returned, it was interrupted, or an
  exception escaped it), the \<open>finally\<close> clause of \<open>main\<close> runs \<open>close_driver\<close>: an
  acquired browser is quit as the last action of the program, and the extractor holds
  no driver afterwards when \<open>quit\<close> returns. On every run of \<open>main\<close> that gets past the
  check of the arguments and acquires a browser, the last event is the quit.
\<close>

theorem close_driver_on_every_exit_path:
  "(driver self1 \<noteq> None \<longrightarrow>
      (\<exists>pre. snd (snd (main_finally W (r, self1, tr))) = pre @ [DriverQuit])) \<and>
   (driver_quit W = Returns () \<longrightarrow> driver (fst (snd (main_finally W (r, self1, tr)))) = None) \<and>
   (2 \<le> length argv \<and> prefix ''http'' (argv ! 1) \<and>
    Stdout WebDriverInitialized \<in> set (snd (snd (main W argv))) \<longrightarrow>
      last (snd (snd (main W argv))) = DriverQuit)"
proof (intro conjI impI)
  assume "driver self1 \<noteq> None"
  then show "\<exists>pre. snd (snd (main_finally W (r, self1, tr))) = pre @ [DriverQuit]"
    by (cases "driver self1") (simp_all add: main_finally_events)
next
  assume "driver_quit W = Returns ()"
  then show "driver (fst (snd (main_finally W (r, self1, tr)))) = None"
    by (auto simp: main_finally_def close_driver_def split: prod.splits outcome.splits option.splits)
next
  assume h: "2 \<le> length argv \<and> prefix ''http'' (argv ! 1) \<and>
    Stdout WebDriverInitialized \<in> set (snd (snd (main W argv)))"
  define flag where "flag = (2 < length argv \<and> argv ! 2 \<in> {''-s'', ''--selenium''})"
  obtain q s2 t2 where g: "get_download_link W (init flag) (argv ! 1) = (q, s2, t2)"
    by (cases "get_download_link W (init flag) (argv ! 1)") auto
  have ev: "snd (snd (main W argv)) = snd (snd (main_finally W (q, s2, t2)))"
    using h g by (simp add: main_def flag_def Let_def split: prod.splits)
  have i: "(driver s2 \<noteq> None) = (Stdout WebDriverInitialized \<in> set t2)"
    by (rule get_download_link_initialized [OF _ g]) (simp add: init_def)
  have "Stdout WebDriverInitialized \<in> set t2"
    using h ev main_try_never_initializes [of q]
    by (auto simp: main_finally_events split: if_splits)
  with i have "driver s2 \<noteq> None" by simp
  then show "last (snd (snd (main W argv))) = DriverQuit"
    by (cases "driver s2") (simp_all add: ev main_finally_events)
qed

theorem close_driver_on_every_exit_path_witness:
  "fst (main ((example_world [])\<lparr>time_sleep := Raises KeyboardInterrupt\<rparr>)
          [''mcpe_downloader.py'', example_url, ''--selenium'']) = Exit 1 \<and>
   last (snd (snd (main ((example_world [])\<lparr>time_sleep := Raises KeyboardInterrupt\<rparr>)
          [''mcpe_downloader.py'', example_url, ''--selenium'']))) = DriverQuit"
proof -
  let ?W = "(example_world [])\<lparr>time_sleep := Raises KeyboardInterrupt\<rparr>"
  let ?argv = "[''mcpe_downloader.py'', example_url, ''--selenium'']"
  have a: "2 \<le> length ?argv \<and> prefix ''http'' (?argv ! 1) \<and>
           Stdout WebDriverInitialized \<in> set (snd (snd (main ?W ?argv)))"
    by code_simp
  have b: "fst (main ?W ?argv) = Exit 1"
    by code_simp
  have c: "last (snd (snd (main ?W ?argv))) = DriverQuit"
    using close_driver_on_every_exit_path [where W = ?W and argv = ?argv] a by blast
  from b c show ?thesis by blast
qed

subsection \<open>Two runs that break the specification\<close>

text \<open>
  Claim C1 on a page with a pattern-matched link and an anchor-only link: the list
  \<open>links\<close> has the pattern match first, but \<open>list(set(links))\<close> may iterate the set the
  other way round, and then the extractor returns the anchor-only link.
\<close>

theorem anchor_link_returned_before_pattern_link:
  "set_semantics (list_of_set ((example_world [ok page_both])\<lparr>list_of_set := rev \<circ> remdups\<rparr>)) \<and>
   re_findall page_both = [game_apk] \<and>
   collected_links ((example_world [ok page_both])\<lparr>list_of_set := rev \<circ> remdups\<rparr>)
     page_both example_url = [game_apk, app_apk] \<and>
   extract_direct_links_from_html ((example_world [ok page_both])\<lparr>list_of_set := rev \<circ> remdups\<rparr>)
     page_both example_url = [app_apk, game_apk] \<and>
   fst (get_download_link_requests
          ((example_world [ok page_both])\<lparr>list_of_set := rev \<circ> remdups\<rparr>) example_url) =
     Returns (Some app_apk)"
proof -
  let ?W = "(example_world [ok page_both])\<lparr>list_of_set := rev \<circ> remdups\<rparr>"
  have a: "set_semantics (list_of_set ?W)"
    by (simp add: set_semantics_rev_remdups)
  have b: "re_findall page_both = [game_apk]"
    by code_simp
  have c: "collected_links ?W page_both example_url = [game_apk, app_apk]"
    by code_simp
  have d: "extract_direct_links_from_html ?W page_both example_url = [app_apk, game_apk]"
    by code_simp
  have e: "fst (get_download_link_requests ?W example_url) = Returns (Some app_apk)"
    by code_simp
  from a b c d e show ?thesis by blast
qed

text \<open>
  Claim C2 on a successful run of the plain-fetch path: the progress lines are printed
  on standard output, before the link.
\<close>

theorem progress_lines_on_stdout:
  "main (example_world [ok page_direct]) [''mcpe_downloader.py'', example_url] =
     (Exit 0, Some \<lparr>use_selenium = False, driver = None\<rparr>,
      [Stdout (Analyzing example_url), Stdout UsingRequestsMethod, SessionGet example_url 15,
       Stdout FoundImmediately, Stdout (Link game_apk)]) \<and>
   stdout (snd (snd (main (example_world [ok page_direct]) [''mcpe_downloader.py'', example_url]))) =
     [Analyzing example_url, UsingRequestsMethod, FoundImmediately, Link game_apk]"
  by code_simp

end
